theory Spec2Isabelle
  imports Complex_Main "HOL-Library.Product_Lexorder" "HOL-Library.Multiset"
    "HOL-Library.Log_Nat"
begin

section \<open>JavaScript numbers\<close>

text \<open>
  Every number of the source is an IEEE 754 double. The numbers that the store only reads,
  compares and copies (ledger times, transaction numbers, clock readings, fees, the delay
  factor) are modelled as \<open>int\<close>, and the retry counter and the return count as
  \<open>nat\<close>. The two values that the store computes are results of double arithmetic: the
  retry count plus one, and the next retry time, which comes from \<^verbatim>\<open>Math.pow\<close>, a
  product and a sum. Such a result is rounded to 53 significant bits, the next retry time
  overflows to an infinity, and infinity times zero is \<^verbatim>\<open>NaN\<close>. All operands being
  integers, so is every finite result.
\<close>

datatype jsnum = Finite int | PosInfinity | NegInfinity | NaN

text \<open>
  Rounding of an integer to the nearest number with 53 significant bits, ties to the even
  significand, with no bound on the exponent.
\<close>

definition roundToDouble :: "int \<Rightarrow> int" where
  "roundToDouble x =
     (if \<bar>x\<bar> < 2 ^ 53 then x
      else let q = 2 ^ nat (bitlen \<bar>x\<bar> - 53);
               m = \<bar>x\<bar> div q;
               r = \<bar>x\<bar> mod q;
               m' = (if 2 * r > q \<or> (2 * r = q \<and> odd m) then m + 1 else m)
           in sgn x * (m' * q))"

text \<open>The double that an exact integer result becomes: rounded, and infinite from \<open>2^1024\<close>.\<close>

definition roundDouble :: "int \<Rightarrow> jsnum" where
  "roundDouble x =
     (let y = roundToDouble x
      in if y \<ge> 2 ^ 1024 then PosInfinity
         else if y \<le> - (2 ^ 1024) then NegInfinity
         else Finite y)"

text \<open>An integer is a double when rounding leaves it as it is.\<close>

definition representable :: "int \<Rightarrow> bool" where
  "representable x = (roundDouble x = Finite x)"

text \<open>\<^verbatim>\<open>Math.pow(2, k)\<close> for a count \<open>k\<close>: exact up to \<open>2^1023\<close>, infinite beyond.\<close>

definition jsPow2 :: "nat \<Rightarrow> jsnum" where
  "jsPow2 k = (if k < 1024 then Finite (2 ^ k) else PosInfinity)"

text \<open>The product \<^verbatim>\<open>a * f\<close> of a double and a finite factor.\<close>

fun jsTimes :: "jsnum \<Rightarrow> int \<Rightarrow> jsnum" where
  "jsTimes (Finite a) f = roundDouble (a * f)"
| "jsTimes PosInfinity f =
     (if f > 0 then PosInfinity else if f < 0 then NegInfinity else NaN)"
| "jsTimes NegInfinity f =
     (if f > 0 then NegInfinity else if f < 0 then PosInfinity else NaN)"
| "jsTimes NaN f = NaN"

text \<open>The sum \<^verbatim>\<open>a + b\<close> of a finite number and a double.\<close>

fun jsPlus :: "int \<Rightarrow> jsnum \<Rightarrow> jsnum" where
  "jsPlus a (Finite b) = roundDouble (a + b)"
| "jsPlus a PosInfinity = PosInfinity"
| "jsPlus a NegInfinity = NegInfinity"
| "jsPlus a NaN = NaN"

text \<open>
  \<^verbatim>\<open>k + 1\<close> for a stored count \<open>k\<close>. A stored count is a double, hence below
  \<open>2^1024\<close>, where the sum cannot overflow.
\<close>

definition jsIncrement :: "nat \<Rightarrow> nat" where
  "jsIncrement k = nat (roundToDouble (int k + 1))"

text \<open>The comparison \<^verbatim>\<open>a <= b\<close> of two doubles; it is false when either is \<^verbatim>\<open>NaN\<close>.\<close>

fun jsLessEq :: "jsnum \<Rightarrow> jsnum \<Rightarrow> bool" where
  "jsLessEq NaN b = False"
| "jsLessEq a NaN = False"
| "jsLessEq NegInfinity b = True"
| "jsLessEq a PosInfinity = True"
| "jsLessEq (Finite a) (Finite b) = (a \<le> b)"
| "jsLessEq a b = False"

text \<open>
  The place of a double in an ascending sort of the storage: \<^verbatim>\<open>NaN\<close> first, then
  negative infinity, the finite numbers by value, and positive infinity last.
\<close>

fun sortPosition :: "jsnum \<Rightarrow> int \<times> int" where
  "sortPosition NaN = (0, 0)"
| "sortPosition NegInfinity = (1, 0)"
| "sortPosition (Finite a) = (2, a)"
| "sortPosition PosInfinity = (3, 0)"

section \<open>Data model of the transaction store\<close>

text \<open>
  The four fields every stored document of either collection carries
  (\<^verbatim>\<open>transactionTime\<close>, \<^verbatim>\<open>transactionNumber\<close>,
  \<^verbatim>\<open>transactionTimeHash\<close>, \<^verbatim>\<open>anchorFileHash\<close>).
\<close>

record anchored =
  transactionTime :: int
  transactionNumber :: int
  transactionTimeHash :: string
  anchorFileHash :: string

text \<open>
  Modelled from the spec: the interface \<^verbatim>\<open>Transaction\<close> is imported from
  \<^verbatim>\<open>./Transaction\<close>, a file that is not among the sources. The spec's data model
  gives it the four fields above and the two fee fields.
\<close>

record transaction = anchored +
  transactionFeePaid :: int
  normalizedTransactionFee :: int

text \<open>
  The document that \<^verbatim>\<open>recordUnresolvableTransactionFetchAttempt\<close> writes: the
  object literal \<^verbatim>\<open>newUnresolvableTransaction\<close> has exactly these seven fields.
\<close>

record unresolvable_transaction = anchored +
  firstFetchTime :: int
  retryAttempts :: nat
  nextRetryTime :: jsnum

text \<open>An error object thrown by the storage driver; \<open>code\<close> is its \<^verbatim>\<open>code\<close> property.\<close>

datatype error = Error (code: "int option") (message: string)

text \<open>
  The state of a \<^verbatim>\<open>MongoDbTransactionStore\<close>: its two collections, in insertion
  order, and the delay factor set by the constructor (60000 unless given).
\<close>

record store =
  transactionCollection :: "transaction list"
  unresolvableTransactionCollection :: "unresolvable_transaction list"
  exponentialDelayFactorInMilliseconds :: int

definition maximumUnresolvableTransactionReturnCount :: nat where
  "maximumUnresolvableTransactionReturnCount = 100"

definition defaultExponentialDelayFactor :: int where
  "defaultExponentialDelayFactor = 60000"

text \<open>The constructor followed by \<^verbatim>\<open>initialize\<close> on an empty database.\<close>

definition newStore :: "int option \<Rightarrow> store" where
  "newStore retryExponentialDelayFactor =
     \<lparr>transactionCollection = [],
      unresolvableTransactionCollection = [],
      exponentialDelayFactorInMilliseconds =
        (case retryExponentialDelayFactor of
           None \<Rightarrow> defaultExponentialDelayFactor
         | Some f \<Rightarrow> f)\<rparr>"

section \<open>The storage operations the store uses\<close>

text \<open>
  Both collections are created with a unique index on
  \<^verbatim>\<open>{ transactionTime: 1, transactionNumber: 1 }\<close>; \<open>txKey\<close> is the indexed pair.
\<close>

definition txKey :: "'a anchored_scheme \<Rightarrow> int \<times> int" where
  "txKey d = (transactionTime d, transactionNumber d)"

definition duplicateKeyError :: error where
  "duplicateKeyError = Error (Some 11000) ''E11000 duplicate key error''"

text \<open>
  \<^verbatim>\<open>insertOne\<close> on a collection with the unique index. \<open>fault\<close> is a failure
  of the driver or the server that has nothing to do with the index (a lost connection,
  say): when present the insert throws it and stores nothing. Otherwise a document whose
  key is already stored is rejected with error code 11000, and any other document is
  appended.
\<close>

definition insertOne ::
  "error option \<Rightarrow> ('a anchored_scheme) list \<Rightarrow> 'a anchored_scheme
     \<Rightarrow> error + ('a anchored_scheme) list" where
  "insertOne fault coll d =
     (case fault of
        Some e \<Rightarrow> Inl e
      | None \<Rightarrow>
          if txKey d \<in> set (map txKey coll) then Inl duplicateKeyError
          else Inr (coll @ [d]))"

text \<open>\<^verbatim>\<open>find(query).toArray()\<close>: the documents that match, in stored order.\<close>

definition findDocs :: "('a \<Rightarrow> bool) \<Rightarrow> 'a list \<Rightarrow> 'a list" where
  "findDocs query coll = filter query coll"

text \<open>\<^verbatim>\<open>updateOne(query, { $set: ... })\<close>: the first matching document is updated.\<close>

fun updateOne :: "('a \<Rightarrow> bool) \<Rightarrow> ('a \<Rightarrow> 'a) \<Rightarrow> 'a list \<Rightarrow> 'a list" where
  "updateOne query upd [] = []"
| "updateOne query upd (d # ds) =
     (if query d then upd d # ds else d # updateOne query upd ds)"

text \<open>\<^verbatim>\<open>deleteOne(query)\<close>: the first matching document is removed.\<close>

fun deleteOne :: "('a \<Rightarrow> bool) \<Rightarrow> 'a list \<Rightarrow> 'a list" where
  "deleteOne query [] = []"
| "deleteOne query (d # ds) = (if query d then ds else d # deleteOne query ds)"

text \<open>\<^verbatim>\<open>deleteMany(query)\<close>: every matching document is removed.\<close>

definition deleteMany :: "('a \<Rightarrow> bool) \<Rightarrow> 'a list \<Rightarrow> 'a list" where
  "deleteMany query coll = filter (\<lambda>d. \<not> query d) coll"

text \<open>
  \<^verbatim>\<open>cursor.limit(n)\<close>: at most \<open>n\<close> documents, except that MongoDB reads a
  limit of 0 as no limit at all.
\<close>

definition limitCursor :: "nat \<Rightarrow> 'a list \<Rightarrow> 'a list" where
  "limitCursor n docs = (if n = 0 then docs else take n docs)"

section \<open>MongoDbTransactionStore\<close>

text \<open>\<^verbatim>\<open>emptyCollections\<close>: both collections are dropped and created again.\<close>

definition emptyCollections :: "store \<Rightarrow> store" where
  "emptyCollections s =
     s\<lparr>transactionCollection := [], unresolvableTransactionCollection := []\<rparr>"

text \<open>
  \<^verbatim>\<open>addProcessedTransaction\<close>: the insert is tried; an error with code 11000 is
  swallowed, any other error is thrown again.
\<close>

definition addProcessedTransaction ::
  "error option \<Rightarrow> store \<Rightarrow> transaction \<Rightarrow> error + store" where
  "addProcessedTransaction fault s t =
     (case insertOne fault (transactionCollection s) t of
        Inr coll \<Rightarrow> Inr (s\<lparr>transactionCollection := coll\<rparr>)
      | Inl e \<Rightarrow> if code e \<noteq> Some 11000 then Inl e else Inr s)"

text \<open>\<^verbatim>\<open>getLastTransaction\<close>: the first document in descending key order, if any.\<close>

definition getLastTransaction :: "store \<Rightarrow> transaction option" where
  "getLastTransaction s =
     (case rev (sort_key txKey (transactionCollection s)) of
        [] \<Rightarrow> None
      | t # _ \<Rightarrow> Some t)"

text \<open>
  The loop of \<^verbatim>\<open>getExponentiallySpacedTransactions\<close>, with its two variables
  \<open>index\<close> and \<open>distance\<close> and the array built so far. Nothing in the loop itself
  bounds the number of rounds, so not returning is the value \<open>None\<close>.
\<close>

partial_function (option) spacedLoop ::
  "'a list \<Rightarrow> int \<Rightarrow> int \<Rightarrow> 'a list \<Rightarrow> 'a list option" where
  "spacedLoop allTransactions index distance exponentiallySpacedTransactions =
     (if index \<ge> 0
      then spacedLoop allTransactions (index - distance) (distance * 2)
             (exponentiallySpacedTransactions @ [allTransactions ! nat index])
      else Some exponentiallySpacedTransactions)"

definition getProcessedTransactions :: "store \<Rightarrow> transaction list" where
  "getProcessedTransactions s = sort_key txKey (transactionCollection s)"

definition getExponentiallySpacedTransactions :: "store \<Rightarrow> transaction list option" where
  "getExponentiallySpacedTransactions s =
     (let allTransactions = sort_key txKey (transactionCollection s)
      in spacedLoop allTransactions (int (length allTransactions) - 1) 1 [])"

text \<open>
  \<^verbatim>\<open>recordUnresolvableTransactionFetchAttempt\<close>. The clock is read twice when a new
  document is built, once for each of its two time fields; \<open>now1\<close> and \<open>now2\<close> are
  the two readings of \<^verbatim>\<open>Date.now()\<close>, in that order.
\<close>

definition newUnresolvableTransaction ::
  "int \<Rightarrow> int \<Rightarrow> transaction \<Rightarrow> unresolvable_transaction" where
  "newUnresolvableTransaction now1 now2 t =
     \<lparr>transactionTime = transactionTime t,
      transactionNumber = transactionNumber t,
      transactionTimeHash = transactionTimeHash t,
      anchorFileHash = anchorFileHash t,
      firstFetchTime = now1,
      retryAttempts = 0,
      nextRetryTime = Finite now2\<rparr>"

definition recordUnresolvableTransactionFetchAttempt ::
  "int \<Rightarrow> int \<Rightarrow> store \<Rightarrow> transaction \<Rightarrow> error + store" where
  "recordUnresolvableTransactionFetchAttempt now1 now2 s t =
     (let findResults =
            findDocs (\<lambda>d. txKey d = txKey t) (unresolvableTransactionCollection s)
      in case findResults of
           [] \<Rightarrow>
             (case insertOne None (unresolvableTransactionCollection s)
                     (newUnresolvableTransaction now1 now2 t) of
                Inl e \<Rightarrow> Inl e
              | Inr coll \<Rightarrow> Inr (s\<lparr>unresolvableTransactionCollection := coll\<rparr>))
         | unresolvableTransaction # _ \<Rightarrow>
             (let retryAttempts' = jsIncrement (retryAttempts unresolvableTransaction);
                  requiredElapsedTime =
                    jsTimes (jsPow2 (retryAttempts unresolvableTransaction))
                      (exponentialDelayFactorInMilliseconds s);
                  nextRetryTime' =
                    jsPlus (firstFetchTime unresolvableTransaction) requiredElapsedTime
              in Inr (s\<lparr>unresolvableTransactionCollection :=
                         updateOne (\<lambda>d. txKey d = txKey t)
                           (\<lambda>d. d\<lparr>retryAttempts := retryAttempts',
                                  nextRetryTime := nextRetryTime'\<rparr>)
                           (unresolvableTransactionCollection s)\<rparr>)))"

definition removeUnresolvableTransaction :: "store \<Rightarrow> transaction \<Rightarrow> store" where
  "removeUnresolvableTransaction s t =
     s\<lparr>unresolvableTransactionCollection :=
         deleteOne (\<lambda>d. txKey d = txKey t) (unresolvableTransactionCollection s)\<rparr>"

text \<open>
  \<^verbatim>\<open>getUnresolvableTransactionsDueForRetry\<close>; \<open>now\<close> is the reading of
  \<^verbatim>\<open>Date.now()\<close> and \<open>None\<close> stands for an argument left \<^verbatim>\<open>undefined\<close>.
  The query \<^verbatim>\<open>{ nextRetryTime: { $lte: now } }\<close> compares doubles, so a document
  whose next retry time is \<^verbatim>\<open>NaN\<close> never matches.
\<close>

definition getUnresolvableTransactionsDueForRetry ::
  "int \<Rightarrow> store \<Rightarrow> nat option \<Rightarrow> unresolvable_transaction list" where
  "getUnresolvableTransactionsDueForRetry now s maximumReturnCount =
     (let returnCount =
            (case maximumReturnCount of
               None \<Rightarrow> maximumUnresolvableTransactionReturnCount
             | Some c \<Rightarrow> c)
      in limitCursor returnCount
           (sort_key (\<lambda>d. sortPosition (nextRetryTime d))
              (findDocs (\<lambda>d. jsLessEq (nextRetryTime d) (Finite now))
                 (unresolvableTransactionCollection s))))"

text \<open>\<^verbatim>\<open>removeTransactionsLaterThan\<close>; \<open>None\<close> stands for \<^verbatim>\<open>undefined\<close>.\<close>

definition removeTransactionsLaterThan :: "store \<Rightarrow> int option \<Rightarrow> store" where
  "removeTransactionsLaterThan s transactionNumber' =
     (case transactionNumber' of
        None \<Rightarrow> emptyCollections s
      | Some n \<Rightarrow>
          s\<lparr>unresolvableTransactionCollection :=
              deleteMany (\<lambda>d. transactionNumber d > n) (unresolvableTransactionCollection s),
            transactionCollection :=
              deleteMany (\<lambda>d. transactionNumber d > n) (transactionCollection s)\<rparr>)"

definition getUnresolvableTransactions :: "store \<Rightarrow> unresolvable_transaction list" where
  "getUnresolvableTransactions s = sort_key txKey (unresolvableTransactionCollection s)"

section \<open>Repeated fetch attempts\<close>

text \<open>
  The fields of an unresolvable document other than the two retry fields that
  \<^verbatim>\<open>$set\<close> names.
\<close>

definition immutableFields ::
  "unresolvable_transaction \<Rightarrow> int \<times> int \<times> string \<times> string \<times> int" where
  "immutableFields d =
     (transactionTime d, transactionNumber d, transactionTimeHash d, anchorFileHash d,
      firstFetchTime d)"

text \<open>
  A caller that records one failed fetch after another: each call comes with its two clock
  readings and its transaction, and the first error ends the run.
\<close>

fun recordAttempts :: "store \<Rightarrow> (int \<times> int \<times> transaction) list \<Rightarrow> error + store" where
  "recordAttempts s [] = Inr s"
| "recordAttempts s ((now1, now2, t) # calls) =
     (case recordUnresolvableTransactionFetchAttempt now1 now2 s t of
        Inl e \<Rightarrow> Inl e
      | Inr s' \<Rightarrow> recordAttempts s' calls)"

section \<open>FeeManager\<close>

text \<open>
  Modelled from the spec: \<^verbatim>\<open>FeeManager.ts\<close> and \<^verbatim>\<open>ErrorCode.ts\<close> are not
  among the sources (only the tests of \<^verbatim>\<open>FeeManager\<close> are). The three error codes
  are those the spec's error taxonomy names for fee computation and verification.
\<close>

datatype fee_error =
  OperationCountLessThanZero
| TransactionFeePaidLessThanNormalizedFee
| TransactionFeePaidInvalid

text \<open>
  Modelled from the spec: the quantized fee is "a non-decreasing function of
  operationCount scaled by normalizedFeeRate, floored at normalizedFeeRate itself". The
  spec leaves the function that maps the operation count to a fee multiplier open (a
  configurable policy), so it is the parameter \<open>multiplier\<close> here.
\<close>

definition quantizedFee :: "(int \<Rightarrow> rat) \<Rightarrow> int \<Rightarrow> int \<Rightarrow> rat" where
  "quantizedFee multiplier normalizedFeeRate operationCount =
     max (multiplier operationCount * of_int normalizedFeeRate) (of_int normalizedFeeRate)"

text \<open>
  Modelled from the spec: \<^verbatim>\<open>computeTransactionFee\<close> "fails with
  OperationCountLessThanZero when operationCount <= 0", computes the quantized fee and
  applies the markup, "fee = quantizedFee * (1 + markupPercent/100), rounded up to the
  smallest ledger fee unit".
\<close>

definition computeTransactionFee ::
  "(int \<Rightarrow> rat) \<Rightarrow> int \<Rightarrow> int \<Rightarrow> int \<Rightarrow> fee_error + int" where
  "computeTransactionFee multiplier normalizedFeeRate operationCount markupPercent =
     (if operationCount \<le> 0 then Inl OperationCountLessThanZero
      else Inr \<lceil>quantizedFee multiplier normalizedFeeRate operationCount
                 * (1 + of_int markupPercent / 100)\<rceil>)"

text \<open>
  Modelled from the spec: \<^verbatim>\<open>verifyTransactionFee\<close> "fails with
  OperationCountLessThanZero when operationCount <= 0", "first checks feePaid >=
  normalizedFeeRate", "then recomputes the expected fee via the same rule as
  computeTransactionFee (markup may be zero) and checks feePaid >= expectedFee".
\<close>

definition verifyTransactionFee ::
  "(int \<Rightarrow> rat) \<Rightarrow> int \<Rightarrow> int \<Rightarrow> int \<Rightarrow> fee_error + unit" where
  "verifyTransactionFee multiplier feePaid operationCount normalizedFeeRate =
     (if operationCount \<le> 0 then Inl OperationCountLessThanZero
      else if feePaid < normalizedFeeRate then Inl TransactionFeePaidLessThanNormalizedFee
      else case computeTransactionFee multiplier normalizedFeeRate operationCount 0 of
             Inl e \<Rightarrow> Inl e
           | Inr expectedFee \<Rightarrow>
               if feePaid < expectedFee then Inl TransactionFeePaidInvalid else Inr ())"

text \<open>A policy that charges one hundredth of the rate for each operation.\<close>

definition perOperationMultiplier :: "int \<Rightarrow> rat" where
  "perOperationMultiplier operationCount = of_int operationCount / 100"

section \<open>Example data\<close>

definition exampleTransaction :: "int \<Rightarrow> int \<Rightarrow> transaction" where
  "exampleTransaction time number =
     \<lparr>transactionTime = time,
      transactionNumber = number,
      transactionTimeHash = ''blockhash'',
      anchorFileHash = ''anchorfile'',
      transactionFeePaid = 105,
      normalizedTransactionFee = 100\<rparr>"

definition networkError :: error where
  "networkError = Error (Some 89) ''network timeout''"

definition exampleUnresolvable :: "int \<Rightarrow> int \<Rightarrow> unresolvable_transaction" where
  "exampleUnresolvable number retryTime =
     \<lparr>transactionTime = 1,
      transactionNumber = number,
      transactionTimeHash = ''blockhash'',
      anchorFileHash = ''anchorfile'',
      firstFetchTime = 1000,
      retryAttempts = 0,
      nextRetryTime = Finite retryTime\<rparr>"

definition exampleRetryStore :: store where
  "exampleRetryStore =
     (newStore None)\<lparr>unresolvableTransactionCollection :=
        [exampleUnresolvable 1 3000, exampleUnresolvable 2 1000, exampleUnresolvable 3 2000,
         exampleUnresolvable 4 9000]\<rparr>"

definition exampleLateRetryStore :: store where
  "exampleLateRetryStore =
     (newStore None)\<lparr>unresolvableTransactionCollection :=
        [(exampleUnresolvable 1 5000)\<lparr>firstFetchTime := 1001, retryAttempts := 38\<rparr>]\<rparr>"

definition exampleLog :: store where
  "exampleLog =
     (newStore None)\<lparr>transactionCollection :=
        [exampleTransaction 2 3, exampleTransaction 1 1, exampleTransaction 3 5,
         exampleTransaction 1 2, exampleTransaction 2 4]\<rparr>"

section \<open>Properties of the storage operations\<close>

lemma insertOne_None:
  "insertOne None coll d =
     (if txKey d \<in> set (map txKey coll) then Inl duplicateKeyError else Inr (coll @ [d]))"
  by (simp add: insertOne_def)

lemma filter_key_absent:
  "k \<notin> set (map txKey coll) \<Longrightarrow> filter (\<lambda>d. txKey d = k) coll = []"
  by (induction coll) auto

lemma filter_key_present:
  "distinct (map txKey coll) \<Longrightarrow> k \<in> set (map txKey coll)
     \<Longrightarrow> length (filter (\<lambda>d. txKey d = k) coll) = 1"
proof (induction coll)
  case Nil
  then show ?case by simp
next
  case (Cons d ds)
  show ?case
  proof (cases "txKey d = k")
    case True
    with Cons.prems have "k \<notin> set (map txKey ds)" by auto
    then have "filter (\<lambda>d. txKey d = k) ds = []" by (rule filter_key_absent)
    with True show ?thesis by simp
  next
    case False
    with Cons show ?thesis by auto
  qed
qed

section \<open>Recording a processed transaction\<close>

text \<open>
  Claim C2. On a transaction collection that respects its unique index,
  \<open>addProcessedTransaction\<close> without a storage failure always succeeds; calling it
  again with the same transaction changes nothing; the collection is unchanged when the
  pair (transactionTime, transactionNumber) was already stored and gets the transaction
  appended otherwise; afterwards exactly one stored entry has that pair and the index
  still holds. A storage error whose code is not 11000 comes back to the caller as it is.
\<close>

theorem addProcessedTransaction_idempotent:
  assumes "distinct (map txKey (transactionCollection s))"
  shows "(\<exists>s'. addProcessedTransaction None s t = Inr s'
            \<and> addProcessedTransaction None s' t = Inr s'
            \<and> transactionCollection s' =
                (if txKey t \<in> set (map txKey (transactionCollection s))
                 then transactionCollection s else transactionCollection s @ [t])
            \<and> length (filter (\<lambda>d. txKey d = txKey t) (transactionCollection s')) = 1
            \<and> distinct (map txKey (transactionCollection s')))
         \<and> (\<forall>e. code e \<noteq> Some 11000 \<longrightarrow> addProcessedTransaction (Some e) s t = Inl e)"
proof (intro conjI allI impI)
  fix e :: error
  assume "code e \<noteq> Some 11000"
  then show "addProcessedTransaction (Some e) s t = Inl e"
    by (simp add: addProcessedTransaction_def insertOne_def)
next
  let ?coll = "transactionCollection s"
  show "\<exists>s'. addProcessedTransaction None s t = Inr s'
            \<and> addProcessedTransaction None s' t = Inr s'
            \<and> transactionCollection s' =
                (if txKey t \<in> set (map txKey ?coll) then ?coll else ?coll @ [t])
            \<and> length (filter (\<lambda>d. txKey d = txKey t) (transactionCollection s')) = 1
            \<and> distinct (map txKey (transactionCollection s'))"
  proof (cases "txKey t \<in> set (map txKey ?coll)")
    case True
    then have "addProcessedTransaction None s t = Inr s"
      by (simp add: addProcessedTransaction_def insertOne_None duplicateKeyError_def)
    moreover have "length (filter (\<lambda>d. txKey d = txKey t) ?coll) = 1"
      using assms True by (rule filter_key_present)
    ultimately show ?thesis using True assms by simp
  next
    case False
    let ?s' = "s\<lparr>transactionCollection := ?coll @ [t]\<rparr>"
    have 1: "addProcessedTransaction None s t = Inr ?s'"
      using False by (simp add: addProcessedTransaction_def insertOne_None)
    have 2: "addProcessedTransaction None ?s' t = Inr ?s'"
      by (simp add: addProcessedTransaction_def insertOne_None duplicateKeyError_def)
    have "filter (\<lambda>d. txKey d = txKey t) ?coll = []"
      using False by (rule filter_key_absent)
    then have 3: "length (filter (\<lambda>d. txKey d = txKey t) (transactionCollection ?s')) = 1"
      by simp
    have 4: "distinct (map txKey (transactionCollection ?s'))"
      using assms False by simp
    from 1 2 3 4 False show ?thesis by simp
  qed
qed

theorem addProcessedTransaction_idempotent_witness:
  "distinct (map txKey (transactionCollection (newStore None)))
   \<and> addProcessedTransaction None (newStore None) (exampleTransaction 1 1)
       = Inr ((newStore None)\<lparr>transactionCollection := [exampleTransaction 1 1]\<rparr>)
   \<and> addProcessedTransaction None
         ((newStore None)\<lparr>transactionCollection := [exampleTransaction 1 1]\<rparr>)
         (exampleTransaction 1 1)
       = Inr ((newStore None)\<lparr>transactionCollection := [exampleTransaction 1 1]\<rparr>)
   \<and> addProcessedTransaction (Some networkError) (newStore None) (exampleTransaction 1 1)
       = Inl networkError"
  using addProcessedTransaction_idempotent [of "newStore None" "exampleTransaction 1 1"]
  by (simp add: newStore_def addProcessedTransaction_def insertOne_def networkError_def
      duplicateKeyError_def)

section \<open>Double arithmetic on integers\<close>

lemma roundToDouble_small: "\<bar>x\<bar> < 2 ^ 53 \<Longrightarrow> roundToDouble x = x"
  by (simp add: roundToDouble_def)

lemma roundDouble_small:
  assumes "\<bar>x\<bar> < 2 ^ 53"
  shows "roundDouble x = Finite x"
proof -
  have "(2::int) ^ 53 \<le> 2 ^ 1024" by (rule power_increasing) simp_all
  with assms have "\<not> x \<ge> 2 ^ 1024" and "\<not> x \<le> - (2 ^ 1024)" by linarith+
  then show ?thesis
    unfolding roundDouble_def roundToDouble_small [OF assms] Let_def by (simp only: if_False)
qed

lemma representable_small: "\<bar>x\<bar> < 2 ^ 53 \<Longrightarrow> representable x"
  by (simp add: representable_def roundDouble_small)

lemma jsIncrement_small:
  assumes "int k + 1 < 2 ^ 53"
  shows "jsIncrement k = k + 1"
proof -
  have "\<bar>int k + 1\<bar> = int k + 1" by simp
  with assms have "\<bar>int k + 1\<bar> < 2 ^ 53" by (simp only:)
  then have "roundToDouble (int k + 1) = int k + 1" by (rule roundToDouble_small)
  then have "jsIncrement k = nat (int k + 1)" by (simp only: jsIncrement_def)
  also have "\<dots> = k + 1" by simp
  finally show ?thesis .
qed

lemma backoff_exact:
  assumes "k < 1024" and "representable (2 ^ k * f)" and "representable (a + 2 ^ k * f)"
  shows "jsPlus a (jsTimes (jsPow2 k) f) = Finite (a + 2 ^ k * f)"
proof -
  have "jsTimes (jsPow2 k) f = Finite (2 ^ k * f)"
    using assms(1,2) by (simp add: jsPow2_def representable_def)
  then show ?thesis using assms(3) by (simp add: representable_def)
qed

lemma round_at_38: "roundDouble (2 ^ 38 * 60000) = Finite 16492674416640000"
  by code_simp

lemma round_sum_at_38: "roundDouble (1001 + 16492674416640000) = Finite 16492674416641000"
  by code_simp

section \<open>Recording a failed fetch\<close>

lemma txKey_retry_update:
  "txKey (d\<lparr>retryAttempts := a, nextRetryTime := b\<rparr>) = txKey d"
  by (simp add: txKey_def)

lemma findDocs_updateOne:
  assumes "\<And>d. query (upd d) = query d"
  shows "findDocs query (updateOne query upd coll) =
           (case findDocs query coll of [] \<Rightarrow> [] | u # rest \<Rightarrow> upd u # rest)"
  using assms by (induction coll) (auto simp: findDocs_def)

lemma findDocs_key_empty:
  "findDocs (\<lambda>d. txKey d = k) coll = [] \<Longrightarrow> k \<notin> set (map txKey coll)"
  by (auto simp: findDocs_def filter_empty_conv)

lemma record_first:
  assumes "findDocs (\<lambda>d. txKey d = txKey t) (unresolvableTransactionCollection s) = []"
  shows "recordUnresolvableTransactionFetchAttempt now1 now2 s t =
           Inr (s\<lparr>unresolvableTransactionCollection :=
                    unresolvableTransactionCollection s @ [newUnresolvableTransaction now1 now2 t]\<rparr>)"
proof -
  have "txKey (newUnresolvableTransaction now1 now2 t) = txKey t"
    by (simp add: newUnresolvableTransaction_def txKey_def)
  with findDocs_key_empty [OF assms]
  have "insertOne None (unresolvableTransactionCollection s) (newUnresolvableTransaction now1 now2 t)
          = Inr (unresolvableTransactionCollection s @ [newUnresolvableTransaction now1 now2 t])"
    by (simp add: insertOne_None)
  with assms show ?thesis
    by (simp add: recordUnresolvableTransactionFetchAttempt_def)
qed

lemma record_again:
  assumes "findDocs (\<lambda>d. txKey d = txKey t) (unresolvableTransactionCollection s) = u # rest"
  shows "recordUnresolvableTransactionFetchAttempt now1 now2 s t =
           Inr (s\<lparr>unresolvableTransactionCollection :=
                    updateOne (\<lambda>d. txKey d = txKey t)
                      (\<lambda>d. d\<lparr>retryAttempts := jsIncrement (retryAttempts u),
                             nextRetryTime :=
                               jsPlus (firstFetchTime u)
                                 (jsTimes (jsPow2 (retryAttempts u))
                                    (exponentialDelayFactorInMilliseconds s))\<rparr>)
                      (unresolvableTransactionCollection s)\<rparr>)"
  using assms by (simp add: recordUnresolvableTransactionFetchAttempt_def)

lemma record_again_found:
  assumes "findDocs (\<lambda>d. txKey d = txKey t) (unresolvableTransactionCollection s) = u # rest"
  shows "\<exists>s'. recordUnresolvableTransactionFetchAttempt now1 now2 s t = Inr s'
           \<and> findDocs (\<lambda>d. txKey d = txKey t) (unresolvableTransactionCollection s') =
               u\<lparr>retryAttempts := jsIncrement (retryAttempts u),
                 nextRetryTime :=
                   jsPlus (firstFetchTime u)
                     (jsTimes (jsPow2 (retryAttempts u))
                        (exponentialDelayFactorInMilliseconds s))\<rparr> # rest"
proof -
  let ?upd = "\<lambda>d. d\<lparr>retryAttempts := jsIncrement (retryAttempts u),
                       nextRetryTime :=
                         jsPlus (firstFetchTime u)
                           (jsTimes (jsPow2 (retryAttempts u))
                              (exponentialDelayFactorInMilliseconds s))\<rparr>"
  have "findDocs (\<lambda>d. txKey d = txKey t)
          (updateOne (\<lambda>d. txKey d = txKey t) ?upd (unresolvableTransactionCollection s))
        = ?upd u # rest"
    by (simp add: findDocs_updateOne txKey_retry_update assms)
  with record_again [OF assms, of now1 now2] show ?thesis by simp
qed

lemma record_first_found:
  assumes "findDocs (\<lambda>d. txKey d = txKey t) (unresolvableTransactionCollection s) = []"
  shows "\<exists>s'. recordUnresolvableTransactionFetchAttempt now1 now2 s t = Inr s'
           \<and> exponentialDelayFactorInMilliseconds s' = exponentialDelayFactorInMilliseconds s
           \<and> findDocs (\<lambda>d. txKey d = txKey t) (unresolvableTransactionCollection s') =
               [newUnresolvableTransaction now1 now2 t]"
proof -
  have "txKey (newUnresolvableTransaction now1 now2 t) = txKey t"
    by (simp add: newUnresolvableTransaction_def txKey_def)
  with assms have "findDocs (\<lambda>d. txKey d = txKey t)
      (unresolvableTransactionCollection s @ [newUnresolvableTransaction now1 now2 t])
     = [newUnresolvableTransaction now1 now2 t]"
    by (simp add: findDocs_def)
  with record_first [OF assms, of now1 now2] show ?thesis by simp
qed

text \<open>
  Claim C3, amended. When no unresolvable document has the pair (transactionTime,
  transactionNumber) of \<open>t\<close>, the call stores one with retryAttempts 0, with
  firstFetchTime the first clock reading \<open>now1\<close> and with nextRetryTime the second
  clock reading \<open>now2\<close>: one and the same value when the clock has not advanced
  between the two readings. When a document \<open>u\<close> for the pair exists, the call
  succeeds and writes only its retryAttempts and nextRetryTime. The new retryAttempts is
  the double \<open>k + 1\<close> for the count \<open>k\<close> before the call, which is
  \<open>k + 1\<close> whenever that is below \<open>2^53\<close>. The new nextRetryTime is the double
  sum of firstFetchTime and the double product of \<open>2^k\<close> and the delay factor, which
  is firstFetchTime + \<open>2^k\<close> * the delay factor whenever \<open>k < 1024\<close> and both the
  product and the sum are doubles, as every integer below \<open>2^53\<close> in magnitude is.
  In particular a second call after the first leaves retryAttempts 1 and nextRetryTime =
  firstFetchTime + the delay factor, when the factor and that sum are doubles.
\<close>

theorem recordUnresolvable_first_then_backoff:
  "(findDocs (\<lambda>d. txKey d = txKey t) (unresolvableTransactionCollection s) = [] \<longrightarrow>
      (\<exists>s'. recordUnresolvableTransactionFetchAttempt now1 now2 s t = Inr s'
         \<and> findDocs (\<lambda>d. txKey d = txKey t) (unresolvableTransactionCollection s') =
             [\<lparr>transactionTime = transactionTime t,
               transactionNumber = transactionNumber t,
               transactionTimeHash = transactionTimeHash t,
               anchorFileHash = anchorFileHash t,
               firstFetchTime = now1, retryAttempts = 0, nextRetryTime = Finite now2\<rparr>]
         \<and> (representable (exponentialDelayFactorInMilliseconds s)
              \<and> representable (now1 + exponentialDelayFactorInMilliseconds s) \<longrightarrow>
             (\<exists>s''. recordUnresolvableTransactionFetchAttempt now3 now4 s' t = Inr s''
               \<and> findDocs (\<lambda>d. txKey d = txKey t) (unresolvableTransactionCollection s'') =
                   [\<lparr>transactionTime = transactionTime t,
                     transactionNumber = transactionNumber t,
                     transactionTimeHash = transactionTimeHash t,
                     anchorFileHash = anchorFileHash t,
                     firstFetchTime = now1, retryAttempts = 1,
                     nextRetryTime =
                       Finite (now1 + exponentialDelayFactorInMilliseconds s)\<rparr>]))))
   \<and> (\<forall>u rest.
        findDocs (\<lambda>d. txKey d = txKey t) (unresolvableTransactionCollection s) = u # rest \<longrightarrow>
        (\<exists>s' u'. recordUnresolvableTransactionFetchAttempt now1 now2 s t = Inr s'
           \<and> findDocs (\<lambda>d. txKey d = txKey t) (unresolvableTransactionCollection s') = u' # rest
           \<and> u' = u\<lparr>retryAttempts := retryAttempts u', nextRetryTime := nextRetryTime u'\<rparr>
           \<and> retryAttempts u' = jsIncrement (retryAttempts u)
           \<and> nextRetryTime u' =
               jsPlus (firstFetchTime u)
                 (jsTimes (jsPow2 (retryAttempts u)) (exponentialDelayFactorInMilliseconds s))
           \<and> (int (retryAttempts u) + 1 < 2 ^ 53 \<longrightarrow>
                retryAttempts u' = retryAttempts u + 1)
           \<and> (retryAttempts u < 1024
                \<and> representable (2 ^ retryAttempts u * exponentialDelayFactorInMilliseconds s)
                \<and> representable (firstFetchTime u
                     + 2 ^ retryAttempts u * exponentialDelayFactorInMilliseconds s) \<longrightarrow>
                nextRetryTime u' =
                  Finite (firstFetchTime u
                    + 2 ^ retryAttempts u * exponentialDelayFactorInMilliseconds s))))
   \<and> (\<forall>x. \<bar>x\<bar> < 2 ^ 53 \<longrightarrow> representable x)"
proof (intro conjI allI impI)
  fix x :: int
  assume "\<bar>x\<bar> < 2 ^ 53"
  then show "representable x" by (rule representable_small)
next
  fix u rest
  assume found: "findDocs (\<lambda>d. txKey d = txKey t) (unresolvableTransactionCollection s) = u # rest"
  let ?f = "exponentialDelayFactorInMilliseconds s"
  let ?u' = "u\<lparr>retryAttempts := jsIncrement (retryAttempts u),
                nextRetryTime := jsPlus (firstFetchTime u) (jsTimes (jsPow2 (retryAttempts u)) ?f)\<rparr>"
  from record_again_found [OF found, of now1 now2] obtain s' where
    s': "recordUnresolvableTransactionFetchAttempt now1 now2 s t = Inr s'"
    and f': "findDocs (\<lambda>d. txKey d = txKey t) (unresolvableTransactionCollection s') = ?u' # rest"
    by blast
  have inc: "int (retryAttempts u) + 1 < 2 ^ 53 \<longrightarrow> retryAttempts ?u' = retryAttempts u + 1"
    by (simp add: jsIncrement_small)
  have exact: "retryAttempts u < 1024
        \<and> representable (2 ^ retryAttempts u * ?f)
        \<and> representable (firstFetchTime u + 2 ^ retryAttempts u * ?f) \<longrightarrow>
        nextRetryTime ?u' = Finite (firstFetchTime u + 2 ^ retryAttempts u * ?f)"
    by (simp add: backoff_exact)
  have same: "?u' = u\<lparr>retryAttempts := retryAttempts ?u', nextRetryTime := nextRetryTime ?u'\<rparr>"
    by simp
  have r: "retryAttempts ?u' = jsIncrement (retryAttempts u)" by simp
  have n: "nextRetryTime ?u' = jsPlus (firstFetchTime u) (jsTimes (jsPow2 (retryAttempts u)) ?f)"
    by simp
  from s' f' same r n inc exact
  show "\<exists>s' u'. recordUnresolvableTransactionFetchAttempt now1 now2 s t = Inr s'
           \<and> findDocs (\<lambda>d. txKey d = txKey t) (unresolvableTransactionCollection s') = u' # rest
           \<and> u' = u\<lparr>retryAttempts := retryAttempts u', nextRetryTime := nextRetryTime u'\<rparr>
           \<and> retryAttempts u' = jsIncrement (retryAttempts u)
           \<and> nextRetryTime u' = jsPlus (firstFetchTime u) (jsTimes (jsPow2 (retryAttempts u)) ?f)
           \<and> (int (retryAttempts u) + 1 < 2 ^ 53 \<longrightarrow>
                retryAttempts u' = retryAttempts u + 1)
           \<and> (retryAttempts u < 1024
                \<and> representable (2 ^ retryAttempts u * ?f)
                \<and> representable (firstFetchTime u + 2 ^ retryAttempts u * ?f) \<longrightarrow>
                nextRetryTime u' = Finite (firstFetchTime u + 2 ^ retryAttempts u * ?f))"
    by blast
next
  assume none: "findDocs (\<lambda>d. txKey d = txKey t) (unresolvableTransactionCollection s) = []"
  let ?f = "exponentialDelayFactorInMilliseconds s"
  let ?new = "newUnresolvableTransaction now1 now2 t"
  from record_first_found [OF none, of now1 now2] obtain s' where
    1: "recordUnresolvableTransactionFetchAttempt now1 now2 s t = Inr s'"
    and fs: "exponentialDelayFactorInMilliseconds s' = ?f"
    and 2: "findDocs (\<lambda>d. txKey d = txKey t) (unresolvableTransactionCollection s') = [?new]"
    by blast
  have lit: "?new = \<lparr>transactionTime = transactionTime t,
               transactionNumber = transactionNumber t,
               transactionTimeHash = transactionTimeHash t,
               anchorFileHash = anchorFileHash t,
               firstFetchTime = now1, retryAttempts = 0, nextRetryTime = Finite now2\<rparr>"
    by (simp add: newUnresolvableTransaction_def)
  have second: "representable ?f \<and> representable (now1 + ?f) \<longrightarrow>
             (\<exists>s''. recordUnresolvableTransactionFetchAttempt now3 now4 s' t = Inr s''
               \<and> findDocs (\<lambda>d. txKey d = txKey t) (unresolvableTransactionCollection s'') =
                   [\<lparr>transactionTime = transactionTime t,
                     transactionNumber = transactionNumber t,
                     transactionTimeHash = transactionTimeHash t,
                     anchorFileHash = anchorFileHash t,
                     firstFetchTime = now1, retryAttempts = 1,
                     nextRetryTime = Finite (now1 + ?f)\<rparr>])"
  proof
    assume rep: "representable ?f \<and> representable (now1 + ?f)"
    from record_again_found [OF 2, of now3 now4] obtain s'' where
      3: "recordUnresolvableTransactionFetchAttempt now3 now4 s' t = Inr s''"
      and 4: "findDocs (\<lambda>d. txKey d = txKey t) (unresolvableTransactionCollection s'') =
               [?new\<lparr>retryAttempts := jsIncrement (retryAttempts ?new),
                 nextRetryTime :=
                   jsPlus (firstFetchTime ?new)
                     (jsTimes (jsPow2 (retryAttempts ?new))
                        (exponentialDelayFactorInMilliseconds s'))\<rparr>]"
      by blast
    have i: "jsIncrement (retryAttempts ?new) = 1"
      using jsIncrement_small [of 0] by (simp add: newUnresolvableTransaction_def)
    have b: "jsPlus (firstFetchTime ?new)
               (jsTimes (jsPow2 (retryAttempts ?new)) (exponentialDelayFactorInMilliseconds s'))
             = Finite (now1 + ?f)"
      using backoff_exact [of 0 ?f now1] rep
      by (simp add: newUnresolvableTransaction_def fs)
    show "\<exists>s''. recordUnresolvableTransactionFetchAttempt now3 now4 s' t = Inr s''
               \<and> findDocs (\<lambda>d. txKey d = txKey t) (unresolvableTransactionCollection s'') =
                   [\<lparr>transactionTime = transactionTime t,
                     transactionNumber = transactionNumber t,
                     transactionTimeHash = transactionTimeHash t,
                     anchorFileHash = anchorFileHash t,
                     firstFetchTime = now1, retryAttempts = 1,
                     nextRetryTime = Finite (now1 + ?f)\<rparr>]"
      using 3 4 unfolding i b by (simp add: newUnresolvableTransaction_def)
  qed
  from 1 2 lit second
  show "\<exists>s'. recordUnresolvableTransactionFetchAttempt now1 now2 s t = Inr s'
         \<and> findDocs (\<lambda>d. txKey d = txKey t) (unresolvableTransactionCollection s') =
             [\<lparr>transactionTime = transactionTime t,
               transactionNumber = transactionNumber t,
               transactionTimeHash = transactionTimeHash t,
               anchorFileHash = anchorFileHash t,
               firstFetchTime = now1, retryAttempts = 0, nextRetryTime = Finite now2\<rparr>]
         \<and> (representable ?f \<and> representable (now1 + ?f) \<longrightarrow>
             (\<exists>s''. recordUnresolvableTransactionFetchAttempt now3 now4 s' t = Inr s''
               \<and> findDocs (\<lambda>d. txKey d = txKey t) (unresolvableTransactionCollection s'') =
                   [\<lparr>transactionTime = transactionTime t,
                     transactionNumber = transactionNumber t,
                     transactionTimeHash = transactionTimeHash t,
                     anchorFileHash = anchorFileHash t,
                     firstFetchTime = now1, retryAttempts = 1,
                     nextRetryTime = Finite (now1 + ?f)\<rparr>]))"
    by (intro exI [of _ s']) simp
qed

theorem recordUnresolvable_first_then_backoff_witness:
  "findDocs (\<lambda>d. txKey d = txKey (exampleTransaction 1 1))
      (unresolvableTransactionCollection (newStore None)) = []
   \<and> representable 60000 \<and> representable (1000 + 60000)
   \<and> recordUnresolvableTransactionFetchAttempt 1000 1001 (newStore None) (exampleTransaction 1 1)
       = Inr ((newStore None)\<lparr>unresolvableTransactionCollection := [exampleUnresolvable 1 1001]\<rparr>)
   \<and> recordUnresolvableTransactionFetchAttempt 2000 2001
         ((newStore None)\<lparr>unresolvableTransactionCollection := [exampleUnresolvable 1 1001]\<rparr>)
         (exampleTransaction 1 1)
       = Inr ((newStore None)\<lparr>unresolvableTransactionCollection :=
                 [(exampleUnresolvable 1 61000)\<lparr>retryAttempts := 1\<rparr>]\<rparr>)"
  using recordUnresolvable_first_then_backoff
    [where s = "newStore None" and t = "exampleTransaction 1 1"
       and ?now1.0 = 1000 and ?now2.0 = 1001 and ?now3.0 = 2000 and ?now4.0 = 2001]
  by (simp add: newStore_def exampleTransaction_def exampleUnresolvable_def findDocs_def
      recordUnresolvableTransactionFetchAttempt_def insertOne_def txKey_def
      newUnresolvableTransaction_def defaultExponentialDelayFactor_def
      representable_small jsIncrement_small jsPow2_def roundDouble_small)

text \<open>
  The claim as stated fails in two places. A document with firstFetchTime 1001 and 38
  attempts gets the next retry time 16492674416641000, the double nearest to
  1001 + \<open>2^38\<close> * 60000 = 16492674416641001. And a document created while the clock
  moves from 1000 to 1001 has firstFetchTime 1000 and nextRetryTime 1001, so that no one
  value is both.
\<close>

theorem recordUnresolvable_backoff_counterexample:
  "recordUnresolvableTransactionFetchAttempt 7000 7001 exampleLateRetryStore
       (exampleTransaction 1 1)
     = Inr ((newStore None)\<lparr>unresolvableTransactionCollection :=
               [(exampleUnresolvable 1 16492674416641000)
                  \<lparr>firstFetchTime := 1001, retryAttempts := 39\<rparr>]\<rparr>)
   \<and> Finite 16492674416641000 \<noteq> Finite (1001 + 2 ^ 38 * 60000)
   \<and> recordUnresolvableTransactionFetchAttempt 1000 1001 (newStore None) (exampleTransaction 1 1)
       = Inr ((newStore None)\<lparr>unresolvableTransactionCollection :=
                 [(exampleUnresolvable 1 1001)\<lparr>firstFetchTime := 1000\<rparr>]\<rparr>)
   \<and> Finite 1001 \<noteq> Finite 1000"
proof -
  have a: "recordUnresolvableTransactionFetchAttempt 7000 7001 exampleLateRetryStore
       (exampleTransaction 1 1)
     = Inr ((newStore None)\<lparr>unresolvableTransactionCollection :=
               [(exampleUnresolvable 1 16492674416641000)
                  \<lparr>firstFetchTime := 1001, retryAttempts := 39\<rparr>]\<rparr>)"
    using round_at_38 round_sum_at_38
    by (simp add: exampleLateRetryStore_def newStore_def exampleTransaction_def
        exampleUnresolvable_def findDocs_def recordUnresolvableTransactionFetchAttempt_def
        txKey_def defaultExponentialDelayFactor_def jsIncrement_small jsPow2_def)
  have b: "recordUnresolvableTransactionFetchAttempt 1000 1001 (newStore None)
        (exampleTransaction 1 1)
       = Inr ((newStore None)\<lparr>unresolvableTransactionCollection :=
                 [(exampleUnresolvable 1 1001)\<lparr>firstFetchTime := 1000\<rparr>]\<rparr>)"
    by (simp add: newStore_def exampleTransaction_def exampleUnresolvable_def findDocs_def
        recordUnresolvableTransactionFetchAttempt_def insertOne_def txKey_def
        newUnresolvableTransaction_def)
  show ?thesis using a b by simp
qed

lemma txKey_fee_update:
  "txKey (t\<lparr>transactionFeePaid := a, normalizedTransactionFee := b\<rparr>) = txKey t"
  by (simp add: txKey_def)

lemma newUnresolvableTransaction_fee_update:
  "newUnresolvableTransaction now1 now2
     (t\<lparr>transactionFeePaid := a, normalizedTransactionFee := b\<rparr>)
   = newUnresolvableTransaction now1 now2 t"
  by (simp add: newUnresolvableTransaction_def)

text \<open>
  Claim C9. When the call creates a document for \<open>t\<close>, the document appended to the
  unresolvable collection consists of the four fields transactionTime, transactionNumber,
  transactionTimeHash and anchorFileHash of \<open>t\<close> and the three retry fields, and of
  nothing else. The two fee fields of \<open>t\<close> are not read: whatever values they have,
  the call gives the same result, and so does a later
  \<open>getUnresolvableTransactionsDueForRetry\<close>, whose entries are documents of that shape.
\<close>

theorem newUnresolvable_has_no_fee_fields:
  "(findDocs (\<lambda>d. txKey d = txKey t) (unresolvableTransactionCollection s) = [] \<longrightarrow>
      recordUnresolvableTransactionFetchAttempt now1 now2 s t =
        Inr (s\<lparr>unresolvableTransactionCollection :=
                 unresolvableTransactionCollection s @
                   [\<lparr>transactionTime = transactionTime t,
                     transactionNumber = transactionNumber t,
                     transactionTimeHash = transactionTimeHash t,
                     anchorFileHash = anchorFileHash t,
                     firstFetchTime = now1, retryAttempts = 0, nextRetryTime = Finite now2\<rparr>]\<rparr>))
   \<and> recordUnresolvableTransactionFetchAttempt now1 now2 s
         (t\<lparr>transactionFeePaid := feePaid, normalizedTransactionFee := normalizedFee\<rparr>)
       = recordUnresolvableTransactionFetchAttempt now1 now2 s t
   \<and> (case recordUnresolvableTransactionFetchAttempt now1 now2 s
               (t\<lparr>transactionFeePaid := feePaid, normalizedTransactionFee := normalizedFee\<rparr>) of
         Inl e \<Rightarrow> []
       | Inr s' \<Rightarrow> getUnresolvableTransactionsDueForRetry now s' limit)
       = (case recordUnresolvableTransactionFetchAttempt now1 now2 s t of
            Inl e \<Rightarrow> []
          | Inr s' \<Rightarrow> getUnresolvableTransactionsDueForRetry now s' limit)"
proof -
  have indep: "recordUnresolvableTransactionFetchAttempt now1 now2 s
         (t\<lparr>transactionFeePaid := feePaid, normalizedTransactionFee := normalizedFee\<rparr>)
       = recordUnresolvableTransactionFetchAttempt now1 now2 s t"
    unfolding recordUnresolvableTransactionFetchAttempt_def txKey_fee_update
      newUnresolvableTransaction_fee_update
    by (rule refl)
  have first: "findDocs (\<lambda>d. txKey d = txKey t) (unresolvableTransactionCollection s) = [] \<Longrightarrow>
      recordUnresolvableTransactionFetchAttempt now1 now2 s t =
        Inr (s\<lparr>unresolvableTransactionCollection :=
                 unresolvableTransactionCollection s @
                   [\<lparr>transactionTime = transactionTime t,
                     transactionNumber = transactionNumber t,
                     transactionTimeHash = transactionTimeHash t,
                     anchorFileHash = anchorFileHash t,
                     firstFetchTime = now1, retryAttempts = 0, nextRetryTime = Finite now2\<rparr>]\<rparr>)"
    using record_first [of t s now1 now2] by (simp add: newUnresolvableTransaction_def)
  show ?thesis using indep first by simp
qed

theorem newUnresolvable_has_no_fee_fields_witness:
  "findDocs (\<lambda>d. txKey d = txKey (exampleTransaction 1 1))
      (unresolvableTransactionCollection (newStore None)) = []
   \<and> recordUnresolvableTransactionFetchAttempt 1000 1001 (newStore None) (exampleTransaction 1 1)
       = Inr ((newStore None)\<lparr>unresolvableTransactionCollection := [exampleUnresolvable 1 1001]\<rparr>)
   \<and> recordUnresolvableTransactionFetchAttempt 1000 1001 (newStore None)
         ((exampleTransaction 1 1)\<lparr>transactionFeePaid := 0, normalizedTransactionFee := 0\<rparr>)
       = Inr ((newStore None)\<lparr>unresolvableTransactionCollection := [exampleUnresolvable 1 1001]\<rparr>)"
  using newUnresolvable_has_no_fee_fields
    [where s = "newStore None" and t = "exampleTransaction 1 1"
       and ?now1.0 = 1000 and ?now2.0 = 1001 and feePaid = 0 and normalizedFee = 0]
  by (simp add: newStore_def exampleTransaction_def exampleUnresolvable_def findDocs_def)


lemma length_updateOne: "length (updateOne query upd coll) = length coll"
  by (induction coll) auto

lemma map_updateOne_frame:
  assumes "\<And>d. f (upd d) = f d"
  shows "map f (updateOne query upd coll) = map f coll"
  using assms by (induction coll) auto

lemma immutableFields_retry_update:
  "immutableFields (d\<lparr>retryAttempts := a, nextRetryTime := b\<rparr>) = immutableFields d"
  by (simp add: immutableFields_def)

lemma record_step_frame:
  "\<exists>s'. recordUnresolvableTransactionFetchAttempt now1 now2 s t = Inr s'
      \<and> transactionCollection s' = transactionCollection s
      \<and> length (unresolvableTransactionCollection s) \<le> length (unresolvableTransactionCollection s')
      \<and> map immutableFields
            (take (length (unresolvableTransactionCollection s))
               (unresolvableTransactionCollection s'))
          = map immutableFields (unresolvableTransactionCollection s)"
proof (cases "findDocs (\<lambda>d. txKey d = txKey t) (unresolvableTransactionCollection s)")
  case Nil
  show ?thesis using record_first [OF Nil, of now1 now2] by simp
next
  case (Cons u rest)
  show ?thesis using record_again [OF Cons, of now1 now2]
    by (simp add: length_updateOne map_updateOne_frame immutableFields_retry_update)
qed

lemma map_take_prefix:
  assumes "length a \<le> length b" and "map f (take (length a) b) = map f a"
    and "map f (take (length b) c) = map f b"
  shows "map f (take (length a) c) = map f a"
proof -
  have "map f (take (length a) c) = take (length a) (take (length b) (map f c))"
    using assms(1) by (simp add: take_map min_def)
  also have "\<dots> = take (length a) (map f b)"
    using assms(3) by (simp add: take_map)
  also have "\<dots> = map f a"
    using assms(2) by (simp add: take_map)
  finally show ?thesis .
qed

text \<open>
  Claim C10. Any run of calls of \<open>recordUnresolvableTransactionFetchAttempt\<close>, whatever
  their transactions and clock readings, succeeds, leaves the transaction collection as it
  was, and leaves every unresolvable document that was stored before the run at its
  position with its transactionTime, transactionNumber, transactionTimeHash,
  anchorFileHash and firstFetchTime unchanged: only retryAttempts and nextRetryTime of a
  stored document are ever written.
\<close>

theorem recordAttempts_frame:
  "\<exists>s'. recordAttempts s calls = Inr s'
      \<and> transactionCollection s' = transactionCollection s
      \<and> length (unresolvableTransactionCollection s) \<le> length (unresolvableTransactionCollection s')
      \<and> map immutableFields
            (take (length (unresolvableTransactionCollection s))
               (unresolvableTransactionCollection s'))
          = map immutableFields (unresolvableTransactionCollection s)"
proof (induction calls arbitrary: s)
  case Nil
  show ?case by simp
next
  case (Cons c calls)
  obtain now1 now2 t where c: "c = (now1, now2, t)" by (cases c) auto
  from record_step_frame [of now1 now2 s t] obtain s1 where
    s1: "recordUnresolvableTransactionFetchAttempt now1 now2 s t = Inr s1"
    and t1: "transactionCollection s1 = transactionCollection s"
    and l1: "length (unresolvableTransactionCollection s) \<le> length (unresolvableTransactionCollection s1)"
    and f1: "map immutableFields
            (take (length (unresolvableTransactionCollection s))
               (unresolvableTransactionCollection s1))
          = map immutableFields (unresolvableTransactionCollection s)"
    by blast
  from Cons.IH [of s1] obtain s' where
    s2: "recordAttempts s1 calls = Inr s'"
    and t2: "transactionCollection s' = transactionCollection s1"
    and l2: "length (unresolvableTransactionCollection s1) \<le> length (unresolvableTransactionCollection s')"
    and f2: "map immutableFields
            (take (length (unresolvableTransactionCollection s1))
               (unresolvableTransactionCollection s'))
          = map immutableFields (unresolvableTransactionCollection s1)"
    by blast
  have "recordAttempts s (c # calls) = Inr s'" using c s1 s2 by simp
  moreover have "transactionCollection s' = transactionCollection s" using t1 t2 by simp
  moreover have "length (unresolvableTransactionCollection s) \<le> length (unresolvableTransactionCollection s')"
    using l1 l2 by linarith
  moreover have "map immutableFields
            (take (length (unresolvableTransactionCollection s))
               (unresolvableTransactionCollection s'))
          = map immutableFields (unresolvableTransactionCollection s)"
    by (rule map_take_prefix [OF l1 f1 f2])
  ultimately show ?case by blast
qed

theorem recordAttempts_frame_witness:
  "recordAttempts
      ((newStore None)\<lparr>unresolvableTransactionCollection := [exampleUnresolvable 1 1001]\<rparr>)
      [(2000, 2001, exampleTransaction 1 1),
       (3000, 3001, (exampleTransaction 1 1)\<lparr>anchorFileHash := ''otherfile''\<rparr>)]
   = Inr ((newStore None)\<lparr>unresolvableTransactionCollection :=
             [(exampleUnresolvable 1 121000)\<lparr>retryAttempts := 2\<rparr>]\<rparr>)"
  using recordAttempts_frame
    [of "(newStore None)\<lparr>unresolvableTransactionCollection := [exampleUnresolvable 1 1001]\<rparr>"
        "[(2000, 2001, exampleTransaction 1 1),
          (3000, 3001, (exampleTransaction 1 1)\<lparr>anchorFileHash := ''otherfile''\<rparr>)]"]
  by (simp add: newStore_def exampleTransaction_def exampleUnresolvable_def findDocs_def
      recordUnresolvableTransactionFetchAttempt_def txKey_def
      defaultExponentialDelayFactor_def jsIncrement_small jsPow2_def roundDouble_small)

section \<open>Exponentially spaced transactions\<close>

lemma int_pow2: "(2::int) ^ k = int (2 ^ k)"
  by simp

lemma spacedLoop_pow:
  "spacedLoop all (int n - 2 ^ k) (2 ^ k) acc
     = Some (acc @ map (\<lambda>j. all ! (n - 2 ^ j)) (filter (\<lambda>j. 2 ^ j \<le> n) [k..<n]))"
proof (induction "n - k" arbitrary: k acc rule: less_induct)
  case less
  show ?case
  proof (cases "(2::nat) ^ k \<le> n")
    case True
    have kn: "k < n" using True less_exp [of k] by linarith
    have idx: "int n - 2 ^ k \<ge> 0"
      using True unfolding int_pow2 by linarith
    have nat_idx: "nat (int n - 2 ^ k) = n - 2 ^ k"
      unfolding int_pow2 by linarith
    have step: "int n - 2 ^ k - 2 ^ k = int n - 2 ^ Suc k" by simp
    have IH: "spacedLoop all (int n - 2 ^ Suc k) (2 ^ Suc k) (acc @ [all ! (n - 2 ^ k)])
       = Some ((acc @ [all ! (n - 2 ^ k)])
               @ map (\<lambda>j. all ! (n - 2 ^ j)) (filter (\<lambda>j. 2 ^ j \<le> n) [Suc k..<n]))"
      using kn by (intro less) simp
    have upt: "[k..<n] = k # [Suc k..<n]" using kn by (simp add: upt_conv_Cons)
    have "spacedLoop all (int n - 2 ^ k) (2 ^ k) acc
        = spacedLoop all (int n - 2 ^ k - 2 ^ k) (2 ^ k * 2) (acc @ [all ! nat (int n - 2 ^ k)])"
      using idx by (subst spacedLoop.simps) simp
    also have "\<dots> = spacedLoop all (int n - 2 ^ Suc k) (2 ^ Suc k) (acc @ [all ! (n - 2 ^ k)])"
      by (simp only: step nat_idx power_Suc mult.commute)
    also note IH
    finally show ?thesis using True by (simp add: upt)
  next
    case False
    have neg: "\<not> int n - 2 ^ k \<ge> 0"
      using False unfolding int_pow2 by linarith
    have "\<And>j. k \<le> j \<Longrightarrow> \<not> (2::nat) ^ j \<le> n"
    proof -
      fix j assume "k \<le> j"
      then have "(2::nat) ^ k \<le> 2 ^ j" by (simp add: power_increasing)
      with False show "\<not> (2::nat) ^ j \<le> n" by linarith
    qed
    then have "filter (\<lambda>j. 2 ^ j \<le> n) [k..<n] = []"
      by (auto simp: filter_empty_conv)
    moreover have "spacedLoop all (int n - 2 ^ k) (2 ^ k) acc = Some acc"
      using neg by (subst spacedLoop.simps) simp
    ultimately show ?thesis by simp
  qed
qed

text \<open>
  Claim C4. With \<open>n\<close> transactions stored, \<open>getExponentiallySpacedTransactions\<close>
  returns (so its loop ends), and what it returns are the entries of the ascending
  listing at the indices \<open>n - 2^k\<close> for \<open>k = 0, 1, 2, ...\<close> as long as
  \<open>2^k \<le> n\<close>, that is at \<open>n-1, n-2, n-4, n-8, ...\<close>, in that order. The listing is
  the stored transactions sorted ascending by (transactionTime, transactionNumber). On an
  empty store the result is the empty sequence.
\<close>

theorem getExponentiallySpacedTransactions_indices:
  "getExponentiallySpacedTransactions s =
     Some (map (\<lambda>k. getProcessedTransactions s ! (length (transactionCollection s) - 2 ^ k))
            (filter (\<lambda>k. 2 ^ k \<le> length (transactionCollection s))
               [0..<length (transactionCollection s)]))
   \<and> sorted (map txKey (getProcessedTransactions s))
   \<and> mset (getProcessedTransactions s) = mset (transactionCollection s)
   \<and> getExponentiallySpacedTransactions (s\<lparr>transactionCollection := []\<rparr>) = Some []"
proof -
  let ?all = "sort_key txKey (transactionCollection s)"
  have "spacedLoop ?all (int (length ?all) - 2 ^ 0) (2 ^ 0) [] =
     Some ([] @ map (\<lambda>j. ?all ! (length ?all - 2 ^ j))
                  (filter (\<lambda>j. 2 ^ j \<le> length ?all) [0..<length ?all]))"
    by (rule spacedLoop_pow)
  then have 1: "getExponentiallySpacedTransactions s =
     Some (map (\<lambda>k. getProcessedTransactions s ! (length (transactionCollection s) - 2 ^ k))
            (filter (\<lambda>k. 2 ^ k \<le> length (transactionCollection s))
               [0..<length (transactionCollection s)]))"
    by (simp add: getExponentiallySpacedTransactions_def getProcessedTransactions_def)
  have 2: "getExponentiallySpacedTransactions (s\<lparr>transactionCollection := []\<rparr>) = Some []"
    unfolding getExponentiallySpacedTransactions_def
    by (subst spacedLoop.simps) simp
  show ?thesis using 1 2 by (simp add: getProcessedTransactions_def)
qed

theorem getExponentiallySpacedTransactions_indices_witness:
  "getProcessedTransactions exampleLog =
     [exampleTransaction 1 1, exampleTransaction 1 2, exampleTransaction 2 3,
      exampleTransaction 2 4, exampleTransaction 3 5]
   \<and> getExponentiallySpacedTransactions exampleLog =
     Some [exampleTransaction 3 5, exampleTransaction 2 4, exampleTransaction 1 2]"
proof -
  have sorted: "getProcessedTransactions exampleLog =
     [exampleTransaction 1 1, exampleTransaction 1 2, exampleTransaction 2 3,
      exampleTransaction 2 4, exampleTransaction 3 5]"
    by (simp add: getProcessedTransactions_def exampleLog_def exampleTransaction_def txKey_def
        newStore_def)
  have len: "length (transactionCollection exampleLog) = 5"
    by (simp add: exampleLog_def)
  have ks: "filter (\<lambda>k. (2::nat) ^ k \<le> 5) [0..<5] = [0, 1, 2]"
    by (simp add: upt_rec)
  show ?thesis
    using getExponentiallySpacedTransactions_indices [of exampleLog]
    by (simp add: sorted len ks)
qed

section \<open>Removing later transactions\<close>

text \<open>
  Claim C6. \<open>removeTransactionsLaterThan\<close> with a number \<open>n\<close> leaves in each of the
  two collections exactly the documents whose transactionNumber is at most \<open>n\<close>, in
  their stored order, so every document with a greater number is gone and every other
  one stays; with no number given it leaves both collections empty.
\<close>

theorem removeTransactionsLaterThan_removes_later:
  "transactionCollection (removeTransactionsLaterThan s (Some n))
     = filter (\<lambda>t. transactionNumber t \<le> n) (transactionCollection s)
   \<and> unresolvableTransactionCollection (removeTransactionsLaterThan s (Some n))
     = filter (\<lambda>u. transactionNumber u \<le> n) (unresolvableTransactionCollection s)
   \<and> transactionCollection (removeTransactionsLaterThan s None) = []
   \<and> unresolvableTransactionCollection (removeTransactionsLaterThan s None) = []"
  by (simp add: removeTransactionsLaterThan_def deleteMany_def emptyCollections_def not_less)

section \<open>Transactions due for retry\<close>

lemma set_limitCursor: "set (limitCursor n docs) \<subseteq> set docs"
  by (auto simp: limitCursor_def dest: in_set_takeD)

lemma sorted_limitCursor:
  "sorted (map f docs) \<Longrightarrow> sorted (map f (limitCursor n docs))"
  by (simp add: limitCursor_def take_map [symmetric] sorted_wrt_take del: take_map)

lemma length_limitCursor: "0 < n \<Longrightarrow> length (limitCursor n docs) \<le> n"
  by (simp add: limitCursor_def)

lemma jsLessEq_of_sortPosition:
  "jsLessEq a (Finite n) \<Longrightarrow> jsLessEq b (Finite n)
     \<Longrightarrow> sortPosition a \<le> sortPosition b \<Longrightarrow> jsLessEq a b"
  by (cases a; cases b) auto

text \<open>
  For every store and every limit, \<open>getUnresolvableTransactionsDueForRetry\<close> returns
  only stored unresolvable documents whose nextRetryTime is at most the clock reading, in
  ascending order of nextRetryTime; for a limit greater than 0 it returns no more than the
  limit; and with no limit given it returns what the limit 100 returns.
\<close>

lemma dueForRetry_every_limit:
  "(\<forall>u \<in> set (getUnresolvableTransactionsDueForRetry now s (Some limit)).
       u \<in> set (unresolvableTransactionCollection s)
       \<and> jsLessEq (nextRetryTime u) (Finite now))
   \<and> sorted_wrt (\<lambda>a b. jsLessEq (nextRetryTime a) (nextRetryTime b))
         (getUnresolvableTransactionsDueForRetry now s (Some limit))
   \<and> (0 < limit \<longrightarrow>
         length (getUnresolvableTransactionsDueForRetry now s (Some limit)) \<le> limit)
   \<and> getUnresolvableTransactionsDueForRetry now s None
         = getUnresolvableTransactionsDueForRetry now s (Some 100)"
proof -
  let ?key = "\<lambda>d. sortPosition (nextRetryTime d)"
  let ?due = "sort_key ?key
                (findDocs (\<lambda>d. jsLessEq (nextRetryTime d) (Finite now))
                   (unresolvableTransactionCollection s))"
  let ?r = "limitCursor limit ?due"
  have r: "getUnresolvableTransactionsDueForRetry now s (Some limit) = ?r"
    by (simp add: getUnresolvableTransactionsDueForRetry_def)
  have "set ?r \<subseteq> set ?due" by (rule set_limitCursor)
  then have 1: "\<forall>u \<in> set ?r.
            u \<in> set (unresolvableTransactionCollection s)
            \<and> jsLessEq (nextRetryTime u) (Finite now)"
    by (auto simp: findDocs_def)
  have "sorted (map ?key ?r)"
    by (rule sorted_limitCursor) simp
  then have "sorted_wrt (\<lambda>a b. ?key a \<le> ?key b) ?r"
    by (simp add: sorted_map)
  then have 2: "sorted_wrt (\<lambda>a b. jsLessEq (nextRetryTime a) (nextRetryTime b)) ?r"
  proof (rule sorted_wrt_mono_rel [rotated])
    fix a b
    assume "a \<in> set ?r" and "b \<in> set ?r" and "?key a \<le> ?key b"
    with 1 show "jsLessEq (nextRetryTime a) (nextRetryTime b)"
      by (blast intro: jsLessEq_of_sortPosition)
  qed
  have 3: "0 < limit \<longrightarrow> length ?r \<le> limit"
    by (simp add: length_limitCursor)
  have 4: "getUnresolvableTransactionsDueForRetry now s None
             = getUnresolvableTransactionsDueForRetry now s (Some 100)"
    by (simp add: getUnresolvableTransactionsDueForRetry_def
        maximumUnresolvableTransactionReturnCount_def)
  show ?thesis using 1 2 3 4 unfolding r by blast
qed

text \<open>
  Claim C5 at the limit 0. The maximum return count is handed to the cursor as it is, and
  the cursor reads 0 as no limit: of the four stored documents the three that are due at
  time 5000 all come back, which is more than the 0 entries that the claim allows.
\<close>

theorem dueForRetry_limit_zero:
  "getUnresolvableTransactionsDueForRetry 5000 exampleRetryStore (Some 0)
     = [exampleUnresolvable 2 1000, exampleUnresolvable 3 2000, exampleUnresolvable 1 3000]
   \<and> \<not> length (getUnresolvableTransactionsDueForRetry 5000 exampleRetryStore (Some 0)) \<le> 0"
  by (simp add: getUnresolvableTransactionsDueForRetry_def exampleRetryStore_def
      exampleUnresolvable_def findDocs_def limitCursor_def newStore_def)

lemma dueForRetry_limit_two:
  "getUnresolvableTransactionsDueForRetry 5000 exampleRetryStore (Some 2)
       = [exampleUnresolvable 2 1000, exampleUnresolvable 3 2000]"
  by (simp add: getUnresolvableTransactionsDueForRetry_def exampleRetryStore_def
      exampleUnresolvable_def findDocs_def limitCursor_def newStore_def)

section \<open>Fees\<close>

text \<open>
  Claim C8. Whatever the rate, the fee paid, the markup and the quantization policy, an
  operation count of 0 or less makes both \<open>computeTransactionFee\<close> and
  \<open>verifyTransactionFee\<close> return the error OperationCountLessThanZero to their caller.
\<close>

theorem fee_operationCount_not_positive:
  assumes "operationCount \<le> 0"
  shows "computeTransactionFee multiplier normalizedFeeRate operationCount markupPercent
           = Inl OperationCountLessThanZero
         \<and> verifyTransactionFee multiplier feePaid operationCount normalizedFeeRate
           = Inl OperationCountLessThanZero"
  using assms by (simp add: computeTransactionFee_def verifyTransactionFee_def)

theorem fee_operationCount_not_positive_witness:
  "(0::int) \<le> 0 \<and> (-1::int) \<le> 0
   \<and> computeTransactionFee perOperationMultiplier 100 0 5 = Inl OperationCountLessThanZero
   \<and> computeTransactionFee perOperationMultiplier 100 (-1) 5 = Inl OperationCountLessThanZero
   \<and> verifyTransactionFee perOperationMultiplier 101 0 10 = Inl OperationCountLessThanZero
   \<and> verifyTransactionFee perOperationMultiplier 101 (-1) 10 = Inl OperationCountLessThanZero"
  using fee_operationCount_not_positive [of 0 perOperationMultiplier 100 5 101 ]
    fee_operationCount_not_positive [of "-1" perOperationMultiplier 100 5 101]
  by (simp add: computeTransactionFee_def verifyTransactionFee_def)

end
